theory Spec2Isabelle
  imports Main "HOL-Library.Word"
begin

section \<open>The account store\<close>

text \<open>
  The repository holds two copies of one Express server: \<^verbatim>\<open>bid_backend/server-clean.js\<close>,
  which gates login on email verification, and a second file that verifies every account at
  registration. The definitions for the first carry the suffix \<open>_clean\<close>, those for the
  second the suffix \<open>_auto\<close>.

  A \<open>Date\<close> is its number of milliseconds since the epoch; an \<open>ObjectId\<close> is opaque.
  The fields \<open>createdAt\<close> and \<open>updatedAt\<close>, which mongoose maintains and no handler reads,
  are left out, and so is everything written to the console.
\<close>

type_synonym date = int
type_synonym oid = nat

record user =
  uid :: oid
  fullname :: string
  email :: string
  role :: string
  password :: string
  isEmailVerified :: bool
  emailVerificationToken :: "string option"
  emailVerificationExpires :: "date option"

text \<open>
  The collection is the list of its documents in insertion order. A document is identified
  by its position: \<open>findOne\<close> returns the position of the first document that satisfies
  the query, and \<open>save\<close> writes a document back to its position.
\<close>

type_synonym collection = "user list"

fun findOne :: "(user \<Rightarrow> bool) \<Rightarrow> collection \<Rightarrow> nat option" where
  "findOne q [] = None"
| "findOne q (u # us) = (if q u then Some 0 else map_option Suc (findOne q us))"

definition save :: "nat \<Rightarrow> user \<Rightarrow> collection \<Rightarrow> collection" where
  "save i u db = db[i := u]"

text \<open>
  \<open>User.create\<close> validates the document against the schema and inserts it. The schema
  marks \<open>fullname\<close>, \<open>email\<close>, \<open>role\<close> and \<open>password\<close> as required (a required
  string must not be empty) and \<open>email\<close> as unique (an index of the store; an insert that
  repeats an email is rejected with error E11000). The options \<open>min: 2\<close> and \<open>max: 50\<close>
  of \<open>fullname\<close> are the validators of numbers and dates; on a field of type String
  mongoose reads \<open>minlength\<close> and \<open>maxlength\<close> and ignores \<open>min\<close> and \<open>max\<close>, so they
  check nothing. A rejected call throws; the value \<open>Inl\<close> carries the message of the error.
\<close>

definition create :: "user \<Rightarrow> collection \<Rightarrow> string + collection" where
  "create doc db =
     (if fullname doc = [] \<or> email doc = [] \<or> role doc = [] \<or> password doc = []
      then Inl ''Users validation failed''
      else if findOne (\<lambda>u. email u = email doc) db \<noteq> None
      then Inl ''E11000 duplicate key error''
      else Inr (db @ [doc]))"

section \<open>Requests, responses and the outside world\<close>

datatype jvalue =
  JString string
| JBool bool
| JId oid
| JObject "(string \<times> jvalue) list"

record response =
  status :: nat
  body :: "(string \<times> jvalue) list"

definition json :: "nat \<Rightarrow> (string \<times> jvalue) list \<Rightarrow> response" where
  "json code b = \<lparr>status = code, body = b\<rparr>"

text \<open>
  A field of a request body or of the query string is absent or a string. JavaScript's
  \<open>!x\<close> holds of an absent field and of the empty string.
\<close>

definition falsy :: "string option \<Rightarrow> bool" where
  "falsy x = (case x of None \<Rightarrow> True | Some s \<Rightarrow> s = [])"

definition str :: "string option \<Rightarrow> string" where
  "str x = (case x of None \<Rightarrow> [] | Some s \<Rightarrow> s)"

text \<open>
  \<open>bcryptjs\<close> is a dependency of the repository, not part of it: the handlers take its two
  functions as they come. \<open>bcrypt_hash p rounds s\<close> is the hash of \<open>p\<close> at the given
  cost under the salt \<open>s\<close>, which the library draws at random.
\<close>

record bcrypt =
  bcrypt_hash :: "string \<Rightarrow> nat \<Rightarrow> string \<Rightarrow> string"
  bcrypt_compare :: "string \<Rightarrow> string \<Rightarrow> bool"

text \<open>
  Modelled from the spec: \<open>services/emailService.sendWelcomeEmail\<close> of the repository is
  missing; the spec gives it the result \<open>{success, error?}\<close>.
\<close>

record email_result =
  success :: bool
  error :: "string option"

text \<open>
  What one request reads from outside: the clock, the bytes of
  \<open>crypto.randomBytes(32)\<close>, the salt of \<open>bcrypt.hash\<close>, the \<open>_id\<close> the driver gives a
  new document, and the result of \<open>sendWelcomeEmail\<close>.
\<close>

record env =
  now :: date
  randomBytes :: "8 word list"
  salt :: string
  newId :: oid
  emailResult :: email_result

definition hex_digit :: "nat \<Rightarrow> char" where
  "hex_digit n = ''0123456789abcdef'' ! n"

definition toString_hex :: "8 word list \<Rightarrow> string" where
  "toString_hex bs = concat (map (\<lambda>b. [hex_digit (unat b div 16), hex_digit (unat b mod 16)]) bs)"

definition day_ms :: int where
  "day_ms = 24 * 60 * 60 * 1000"

section \<open>The handlers of server-clean.js\<close>

definition register_clean ::
  "bcrypt \<Rightarrow> env \<Rightarrow> string option \<Rightarrow> string option \<Rightarrow> string option \<Rightarrow> string option
     \<Rightarrow> collection \<Rightarrow> response \<times> collection" where
  "register_clean bc e fullname' email' password' role' db =
     (if falsy fullname' \<or> falsy email' \<or> falsy password' \<or> falsy role'
      then (json 400 [(''message'', JString ''All fields are required'')], db)
      else case findOne (\<lambda>u. email u = str email') db of
        Some existingUser \<Rightarrow> (json 400 [(''message'', JString ''Email already exists'')], db)
      | None \<Rightarrow>
          let saltRounds = 10;
              hashedPassword = bcrypt_hash bc (str password') saltRounds (salt e);
              verificationToken = toString_hex (randomBytes e);
              verificationExpires = now e + day_ms;
              newUser = \<lparr>uid = newId e, fullname = str fullname', email = str email',
                         role = str role', password = hashedPassword,
                         isEmailVerified = False,
                         emailVerificationToken = Some verificationToken,
                         emailVerificationExpires = Some verificationExpires\<rparr>
          in case create newUser db of
               Inl msg \<Rightarrow> (json 500 [(''message'', JString msg)], db)
             | Inr db' \<Rightarrow>
                 (json 201
                    [(''message'', JString ''Registration successful! Please check your email to verify your account.''),
                     (''userId'', JId (uid newUser)),
                     (''verificationToken'', JString verificationToken)],
                  db'))"

text \<open>
  The query of \<open>/verify-email\<close>: the token is the stored one and the stored expiry is
  greater than the clock. A field that is \<open>null\<close> matches neither.
\<close>

definition validToken :: "string \<Rightarrow> date \<Rightarrow> user \<Rightarrow> bool" where
  "validToken token t u =
     (emailVerificationToken u = Some token \<and>
      (case emailVerificationExpires u of None \<Rightarrow> False | Some x \<Rightarrow> t < x))"

definition verifyEmail_clean ::
  "env \<Rightarrow> string option \<Rightarrow> collection \<Rightarrow> response \<times> collection" where
  "verifyEmail_clean e token db =
     (if falsy token
      then (json 400 [(''message'', JString ''Verification token is required'')], db)
      else case findOne (validToken (str token) (now e)) db of
        None \<Rightarrow> (json 400 [(''message'', JString ''Invalid or expired verification token'')], db)
      | Some i \<Rightarrow>
          let user = (db ! i)\<lparr>isEmailVerified := True,
                               emailVerificationToken := None,
                               emailVerificationExpires := None\<rparr>
          in (json 200
                [(''message'', JString ''Email verified successfully! You can now login to your account.''),
                 (''isVerified'', JBool True)],
              save i user db))"

definition resendVerification_clean ::
  "env \<Rightarrow> string option \<Rightarrow> collection \<Rightarrow> response \<times> collection" where
  "resendVerification_clean e email' db =
     (if falsy email'
      then (json 400 [(''message'', JString ''Email is required'')], db)
      else case findOne (\<lambda>u. email u = str email') db of
        None \<Rightarrow> (json 404 [(''message'', JString ''User not found'')], db)
      | Some i \<Rightarrow>
          if isEmailVerified (db ! i)
          then (json 400 [(''message'', JString ''Email is already verified'')], db)
          else
            let verificationToken = toString_hex (randomBytes e);
                verificationExpires = now e + day_ms;
                user = (db ! i)\<lparr>emailVerificationToken := Some verificationToken,
                                 emailVerificationExpires := Some verificationExpires\<rparr>
            in (json 200
                  [(''message'', JString ''Verification email sent successfully! Please check your email.''),
                   (''verificationToken'', JString verificationToken)],
                save i user db))"

definition summary :: "user \<Rightarrow> jvalue" where
  "summary u =
     JObject [(''id'', JId (uid u)), (''fullname'', JString (fullname u)),
              (''email'', JString (email u)), (''role'', JString (role u)),
              (''isEmailVerified'', JBool (isEmailVerified u))]"

definition login_clean ::
  "bcrypt \<Rightarrow> string option \<Rightarrow> string option \<Rightarrow> collection \<Rightarrow> response \<times> collection" where
  "login_clean bc email' password' db =
     (if falsy email' \<or> falsy password'
      then (json 400 [(''message'', JString ''Email and password are required'')], db)
      else case findOne (\<lambda>u. email u = str email') db of
        None \<Rightarrow> (json 401 [(''message'', JString ''Invalid email or password'')], db)
      | Some i \<Rightarrow>
          if \<not> isEmailVerified (db ! i)
          then (json 401 [(''message'', JString ''Please verify your email before logging in''),
                          (''emailVerified'', JBool False)], db)
          else if \<not> bcrypt_compare bc (str password') (password (db ! i))
          then (json 401 [(''message'', JString ''Invalid email or password'')], db)
          else (json 200 [(''message'', JString ''Login successful''),
                          (''user'', summary (db ! i))], db))"

section \<open>The handlers of the auto-verifying server\<close>

text \<open>
  \<open>/register\<close> and \<open>/verify-email\<close> branch on the result of \<open>sendWelcomeEmail\<close> only to
  log it, and then send the one response; \<open>/resend-verification\<close> sends a different
  response in each branch.
\<close>

definition register_auto ::
  "bcrypt \<Rightarrow> env \<Rightarrow> string option \<Rightarrow> string option \<Rightarrow> string option \<Rightarrow> string option
     \<Rightarrow> collection \<Rightarrow> response \<times> collection" where
  "register_auto bc e fullname' email' password' role' db =
     (if falsy fullname' \<or> falsy email' \<or> falsy password' \<or> falsy role'
      then (json 400 [(''message'', JString ''All fields are required'')], db)
      else case findOne (\<lambda>u. email u = str email') db of
        Some existingUser \<Rightarrow> (json 400 [(''message'', JString ''Email already exists'')], db)
      | None \<Rightarrow>
          let saltRounds = 10;
              hashedPassword = bcrypt_hash bc (str password') saltRounds (salt e);
              verificationToken = toString_hex (randomBytes e);
              verificationExpires = now e + day_ms;
              newUser = \<lparr>uid = newId e, fullname = str fullname', email = str email',
                         role = str role', password = hashedPassword,
                         isEmailVerified = True,
                         emailVerificationToken = Some verificationToken,
                         emailVerificationExpires = Some verificationExpires\<rparr>
          in case create newUser db of
               Inl msg \<Rightarrow> (json 500 [(''message'', JString msg)], db)
             | Inr db' \<Rightarrow>
                 ((if success (emailResult e)
                   then json 201
                     [(''message'', JString ''Registration successful! Welcome to Palm Island Football Academy. You can now login to your account.''),
                      (''userId'', JId (uid newUser))]
                   else json 201
                     [(''message'', JString ''Registration successful! Welcome to Palm Island Football Academy. You can now login to your account.''),
                      (''userId'', JId (uid newUser))]),
                  db'))"

definition verifyEmail_auto ::
  "env \<Rightarrow> string option \<Rightarrow> collection \<Rightarrow> response \<times> collection" where
  "verifyEmail_auto e token db =
     (if falsy token
      then (json 400 [(''message'', JString ''Verification token is required'')], db)
      else case findOne (validToken (str token) (now e)) db of
        None \<Rightarrow> (json 400 [(''message'', JString ''Invalid or expired verification token'')], db)
      | Some i \<Rightarrow>
          let user = (db ! i)\<lparr>isEmailVerified := True,
                               emailVerificationToken := None,
                               emailVerificationExpires := None\<rparr>;
              db' = save i user db
          in ((if success (emailResult e)
               then json 200
                 [(''message'', JString ''Email verified successfully! You can now login to your account.''),
                  (''isVerified'', JBool True)]
               else json 200
                 [(''message'', JString ''Email verified successfully! You can now login to your account.''),
                  (''isVerified'', JBool True)]),
              db'))"

definition login_auto ::
  "bcrypt \<Rightarrow> string option \<Rightarrow> string option \<Rightarrow> collection \<Rightarrow> response \<times> collection" where
  "login_auto bc email' password' db =
     (if falsy email' \<or> falsy password'
      then (json 400 [(''message'', JString ''Email and password are required'')], db)
      else case findOne (\<lambda>u. email u = str email') db of
        None \<Rightarrow> (json 401 [(''message'', JString ''Invalid email or password'')], db)
      | Some i \<Rightarrow>
          if \<not> bcrypt_compare bc (str password') (password (db ! i))
          then (json 401 [(''message'', JString ''Invalid email or password'')], db)
          else (json 200 [(''message'', JString ''Login successful''),
                          (''user'', summary (db ! i))], db))"

definition resendVerification_auto ::
  "env \<Rightarrow> string option \<Rightarrow> collection \<Rightarrow> response \<times> collection" where
  "resendVerification_auto e email' db =
     (if falsy email'
      then (json 400 [(''message'', JString ''Email is required'')], db)
      else case findOne (\<lambda>u. email u = str email') db of
        None \<Rightarrow> (json 404 [(''message'', JString ''User not found'')], db)
      | Some i \<Rightarrow>
          if success (emailResult e)
          then (json 200 [(''message'', JString ''Welcome email sent successfully! Your account is already active.'')], db)
          else (json 500 [(''message'', JString ''Failed to send welcome email. Please try again later.'')], db))"

section \<open>The routes, and runs of the server\<close>

datatype request =
  Register "string option" "string option" "string option" "string option"
| VerifyEmail "string option"
| ResendVerification "string option"
| Login "string option" "string option"

datatype server = Clean | Auto

fun handle :: "server \<Rightarrow> bcrypt \<Rightarrow> env \<Rightarrow> request \<Rightarrow> collection \<Rightarrow> response \<times> collection" where
  "handle Clean bc e (Register f m p r) db = register_clean bc e f m p r db"
| "handle Clean bc e (VerifyEmail t) db = verifyEmail_clean e t db"
| "handle Clean bc e (ResendVerification m) db = resendVerification_clean e m db"
| "handle Clean bc e (Login m p) db = login_clean bc m p db"
| "handle Auto bc e (Register f m p r) db = register_auto bc e f m p r db"
| "handle Auto bc e (VerifyEmail t) db = verifyEmail_auto e t db"
| "handle Auto bc e (ResendVerification m) db = resendVerification_auto e m db"
| "handle Auto bc e (Login m p) db = login_auto bc m p db"

text \<open>
  The requests are served one after the other, each with what it reads from outside; a
  handler writes to the collection at most once, so the collections between requests
  are all the collections there are.
\<close>

fun run :: "server \<Rightarrow> bcrypt \<Rightarrow> (env \<times> request) list \<Rightarrow> collection \<Rightarrow> collection" where
  "run sv bc [] db = db"
| "run sv bc (er # rs) db = run sv bc rs (snd (handle sv bc (fst er) (snd er) db))"

text \<open>
  The accounts that hold a token, and the requests that may store it: \<open>/register\<close> and
  \<open>/resend-verification\<close> are the handlers that call \<open>crypto.randomBytes\<close>.
\<close>

definition holders :: "string \<Rightarrow> collection \<Rightarrow> user list" where
  "holders t db = filter (\<lambda>u. emailVerificationToken u = Some t) db"

fun issues :: "string \<Rightarrow> env \<times> request \<Rightarrow> bool" where
  "issues t (e, Register f m p r) = (toString_hex (randomBytes e) = t)"
| "issues t (e, ResendVerification m) = (toString_hex (randomBytes e) = t)"
| "issues t (e, VerifyEmail tok) = False"
| "issues t (e, Login m p) = False"

section \<open>Concrete inputs\<close>

text \<open>
  A stand-in for \<open>bcryptjs\<close> (the salt has four characters), a reading of the outside
  world, and the account that \<open>/register\<close> of server-clean.js stores for Jane Doe under it.
\<close>

definition example_bcrypt :: bcrypt where
  "example_bcrypt = \<lparr>bcrypt_hash = (\<lambda>p rounds s. s @ p), bcrypt_compare = (\<lambda>p h. drop 4 h = p)\<rparr>"

definition example_bytes :: "8 word list" where
  "example_bytes =
     [58, 127, 0, 255, 16, 9, 200, 77, 1, 2, 3, 4, 5, 6, 7, 8,
      171, 205, 239, 18, 52, 86, 120, 154, 188, 222, 240, 15, 30, 45, 60, 75]"

definition example_token :: string where
  "example_token = ''3a7f00ff1009c84d0102030405060708abcdef123456789abcdef00f1e2d3c4b''"

definition example_env :: env where
  "example_env = \<lparr>now = 1000, randomBytes = example_bytes, salt = ''salt'', newId = 1,
                   emailResult = \<lparr>success = True, error = None\<rparr>\<rparr>"

definition example_user :: user where
  "example_user = \<lparr>uid = 1, fullname = ''Jane Doe'', email = ''jane@x.com'', role = ''player'',
                    password = ''saltsecret123'', isEmailVerified = False,
                    emailVerificationToken = Some example_token,
                    emailVerificationExpires = Some 86401000\<rparr>"

section \<open>Lemmas about the store\<close>

lemma findOne_None_iff: "findOne q db = None \<longleftrightarrow> (\<forall>u\<in>set db. \<not> q u)"
  by (induction db) auto

lemma findOne_Some:
  "findOne q db = Some i \<Longrightarrow> i < length db \<and> q (db ! i) \<and> (\<forall>j<i. \<not> q (db ! j))"
proof (induction db arbitrary: i)
  case Nil
  then show ?case by simp
next
  case (Cons u us)
  show ?case
  proof (cases "q u")
    case True
    with Cons.prems show ?thesis by simp
  next
    case False
    with Cons.prems obtain k where k: "findOne q us = Some k" "i = Suc k" by auto
    from Cons.IH[OF k(1)] False k(2) show ?thesis
      by (auto simp: less_Suc_eq_0_disj)
  qed
qed

lemma findOne_append_None:
  "findOne q db = None \<Longrightarrow> findOne q (db @ [u]) = (if q u then Some (length db) else None)"
  by (induction db) (auto split: if_splits)

lemma findOne_append_Some:
  "findOne q db = Some i \<Longrightarrow> findOne q (db @ us) = Some i"
  by (induction db arbitrary: i) (auto split: if_splits)

lemma length_toString_hex: "length (toString_hex bs) = 2 * length bs"
  by (induction bs) (simp_all add: toString_hex_def)

lemma toString_hex_nonempty: "length bs = 32 \<Longrightarrow> toString_hex bs \<noteq> []"
  using length_toString_hex[of bs] by auto

lemma falsy_Some: "\<not> falsy x \<Longrightarrow> x = Some (str x) \<and> str x \<noteq> []"
  by (cases x) (auto simp: falsy_def str_def)

lemma verifyEmail_auto_eq: "verifyEmail_auto e t db = verifyEmail_clean e t db"
  by (simp add: verifyEmail_auto_def verifyEmail_clean_def Let_def split: option.splits)

lemma register_clean_fresh:
  assumes "\<not> falsy f" "\<not> falsy m" "\<not> falsy p" "\<not> falsy r"
      and "findOne (\<lambda>u. email u = str m) db = None"
      and "bcrypt_hash bc (str p) 10 (salt e) \<noteq> []"
  shows "register_clean bc e f m p r db =
     (json 201 [(''message'', JString ''Registration successful! Please check your email to verify your account.''),
                (''userId'', JId (newId e)),
                (''verificationToken'', JString (toString_hex (randomBytes e)))],
      db @ [\<lparr>uid = newId e, fullname = str f, email = str m, role = str r,
              password = bcrypt_hash bc (str p) 10 (salt e), isEmailVerified = False,
              emailVerificationToken = Some (toString_hex (randomBytes e)),
              emailVerificationExpires = Some (now e + day_ms)\<rparr>])"
  using assms falsy_Some[of f] falsy_Some[of m] falsy_Some[of r]
  by (simp add: register_clean_def create_def Let_def)


lemma register_auto_fresh:
  assumes "\<not> falsy f" "\<not> falsy m" "\<not> falsy p" "\<not> falsy r"
      and "findOne (\<lambda>u. email u = str m) db = None"
      and "bcrypt_hash bc (str p) 10 (salt e) \<noteq> []"
  shows "register_auto bc e f m p r db =
     (json 201 [(''message'', JString ''Registration successful! Welcome to Palm Island Football Academy. You can now login to your account.''),
                (''userId'', JId (newId e))],
      db @ [\<lparr>uid = newId e, fullname = str f, email = str m, role = str r,
              password = bcrypt_hash bc (str p) 10 (salt e), isEmailVerified = True,
              emailVerificationToken = Some (toString_hex (randomBytes e)),
              emailVerificationExpires = Some (now e + day_ms)\<rparr>])"
  using assms falsy_Some[of f] falsy_Some[of m] falsy_Some[of r]
  by (simp add: register_auto_def create_def Let_def)

lemma register_clean_known:
  assumes "\<not> falsy f" "\<not> falsy m" "\<not> falsy p" "\<not> falsy r"
      and "findOne (\<lambda>u. email u = str m) db = Some i"
  shows "register_clean bc e f m p r db =
     (json 400 [(''message'', JString ''Email already exists'')], db)"
  using assms by (simp add: register_clean_def)

lemma register_auto_known:
  assumes "\<not> falsy f" "\<not> falsy m" "\<not> falsy p" "\<not> falsy r"
      and "findOne (\<lambda>u. email u = str m) db = Some i"
  shows "register_auto bc e f m p r db =
     (json 400 [(''message'', JString ''Email already exists'')], db)"
  using assms by (simp add: register_auto_def)

lemma filter_email_None:
  "findOne (\<lambda>u. email u = a) db = None \<Longrightarrow> filter (\<lambda>u. email u = a) db = []"
  by (simp add: findOne_None_iff filter_empty_conv)

text \<open>What a handler does to the emails of the collection: nothing, or it appends a new one.\<close>

lemma emails_register_clean:
  "map email (snd (register_clean bc e f m p r db)) = map email db \<or>
   (\<exists>a. a \<notin> set (map email db) \<and> map email (snd (register_clean bc e f m p r db)) = map email db @ [a])"
  by (auto simp: register_clean_def create_def Let_def findOne_None_iff split: option.splits)

lemma emails_register_auto:
  "map email (snd (register_auto bc e f m p r db)) = map email db \<or>
   (\<exists>a. a \<notin> set (map email db) \<and> map email (snd (register_auto bc e f m p r db)) = map email db @ [a])"
  by (auto simp: register_auto_def create_def Let_def findOne_None_iff split: option.splits)

lemma map_email_update:
  "i < length db \<Longrightarrow> email u = email (db ! i) \<Longrightarrow> map email (db[i := u]) = map email db"
  by (simp add: map_update list_update_same_conv)

lemma emails_verifyEmail_clean:
  "map email (snd (verifyEmail_clean e t db)) = map email db"
  by (auto simp: verifyEmail_clean_def save_def Let_def map_email_update
      dest: findOne_Some split: option.splits)

lemma emails_resendVerification_clean:
  "map email (snd (resendVerification_clean e m db)) = map email db"
  by (auto simp: resendVerification_clean_def save_def Let_def map_email_update
      dest: findOne_Some split: option.splits)

lemma emails_handle:
  "map email (snd (handle sv bc e req db)) = map email db \<or>
   (\<exists>a. a \<notin> set (map email db) \<and> map email (snd (handle sv bc e req db)) = map email db @ [a])"
proof (cases sv)
  case Clean
  show ?thesis
  proof (cases req)
    case (Register f m p r)
    with Clean show ?thesis using emails_register_clean[of bc e f m p r db] by simp
  next
    case (VerifyEmail t)
    with Clean show ?thesis by (simp add: emails_verifyEmail_clean)
  next
    case (ResendVerification m)
    with Clean show ?thesis by (simp add: emails_resendVerification_clean)
  next
    case (Login m p)
    with Clean show ?thesis by (simp add: login_clean_def split: option.splits)
  qed
next
  case Auto
  show ?thesis
  proof (cases req)
    case (Register f m p r)
    with Auto show ?thesis using emails_register_auto[of bc e f m p r db] by simp
  next
    case (VerifyEmail t)
    with Auto show ?thesis by (simp add: verifyEmail_auto_eq emails_verifyEmail_clean)
  next
    case (ResendVerification m)
    with Auto show ?thesis by (simp add: resendVerification_auto_def split: option.splits)
  next
    case (Login m p)
    with Auto show ?thesis by (simp add: login_auto_def split: option.splits)
  qed
qed

lemma distinct_emails_handle:
  "distinct (map email db) \<Longrightarrow> distinct (map email (snd (handle sv bc e req db)))"
  using emails_handle[of sv bc e req db] by auto

lemma distinct_emails_run:
  "distinct (map email db) \<Longrightarrow> distinct (map email (run sv bc rs db))"
  by (induction rs arbitrary: db) (simp_all add: distinct_emails_handle)

lemma handle_register_fresh:
  assumes "\<not> falsy f" "\<not> falsy m" "\<not> falsy p" "\<not> falsy r"
      and "findOne (\<lambda>u. email u = str m) db = None"
      and "bcrypt_hash bc (str p) 10 (salt e) \<noteq> []"
  shows "\<exists>b u. handle sv bc e (Register f m p r) db = (json 201 b, db @ [u]) \<and> email u = str m"
  using register_clean_fresh[OF assms] register_auto_fresh[OF assms]
  by (cases sv) auto

lemma handle_register_known:
  assumes "\<not> falsy f" "\<not> falsy m" "\<not> falsy p" "\<not> falsy r"
      and "findOne (\<lambda>u. email u = str m) db = Some i"
  shows "handle sv bc e (Register f m p r) db =
     (json 400 [(''message'', JString ''Email already exists'')], db)"
  using register_clean_known[OF assms] register_auto_known[OF assms]
  by (cases sv) simp_all

section \<open>The concrete inputs, evaluated\<close>

lemma example_hex: "toString_hex example_bytes = example_token"
  by (simp add: toString_hex_def example_bytes_def example_token_def hex_digit_def)

lemma example_registered:
  "register_clean example_bcrypt example_env (Some ''Jane Doe'') (Some ''jane@x.com'')
     (Some ''secret123'') (Some ''player'') [] =
   (json 201 [(''message'', JString ''Registration successful! Please check your email to verify your account.''),
              (''userId'', JId 1), (''verificationToken'', JString example_token)],
    [example_user])"
  by (simp add: register_clean_def create_def falsy_def str_def example_bcrypt_def example_env_def
      example_user_def example_hex day_ms_def)

lemma example_hash: "bcrypt_hash example_bcrypt p n s = s @ p"
  by (simp add: example_bcrypt_def)


lemma example_salt: "salt example_env = ''salt''"
  by (simp add: example_env_def)

section \<open>Registering an email twice\<close>

text \<open>
  Claim C1. Two register requests with the same email, served one after the other, on a
  collection that does not hold the email yet, both with all four fields: the first is
  answered 201 and adds exactly one account, which is then the only one with that email;
  the second is answered 400 ``Email already exists'' and leaves the collection as it is.
  And from a collection in which no two accounts share an email, every run of either
  server leads to such a collection again.
\<close>

theorem register_same_email_twice:
  assumes first: "\<not> falsy f1" "\<not> falsy m" "\<not> falsy p1" "\<not> falsy r1"
      and second: "\<not> falsy f2" "\<not> falsy p2" "\<not> falsy r2"
      and fresh: "findOne (\<lambda>u. email u = str m) db = None"
      and hashed: "bcrypt_hash bc (str p1) 10 (salt e1) \<noteq> []"
  shows "status (fst (handle sv bc e1 (Register f1 m p1 r1) db)) = 201 \<and>
         length (snd (handle sv bc e1 (Register f1 m p1 r1) db)) = Suc (length db) \<and>
         length (filter (\<lambda>u. email u = str m) (snd (handle sv bc e1 (Register f1 m p1 r1) db))) = 1 \<and>
         handle sv bc e2 (Register f2 m p2 r2) (snd (handle sv bc e1 (Register f1 m p1 r1) db)) =
           (json 400 [(''message'', JString ''Email already exists'')],
            snd (handle sv bc e1 (Register f1 m p1 r1) db)) \<and>
         (distinct (map email db) \<longrightarrow> (\<forall>rs. distinct (map email (run sv bc rs db))))"
proof -
  from handle_register_fresh[OF first fresh hashed]
  obtain b u where h: "handle sv bc e1 (Register f1 m p1 r1) db = (json 201 b, db @ [u])"
    and u: "email u = str m" by blast
  have found: "findOne (\<lambda>u. email u = str m) (db @ [u]) = Some (length db)"
    using findOne_append_None[OF fresh, of u] u by simp
  have "handle sv bc e2 (Register f2 m p2 r2) (db @ [u]) =
      (json 400 [(''message'', JString ''Email already exists'')], db @ [u])"
    using handle_register_known[OF second(1) first(2) second(2,3) found] .
  moreover have "length (filter (\<lambda>u. email u = str m) (db @ [u])) = 1"
    using filter_email_None[OF fresh] u by simp
  ultimately show ?thesis
    using h by (simp add: json_def distinct_emails_run)
qed


theorem register_same_email_twice_witness:
  "\<not> falsy (Some ''Jane Doe'') \<and> \<not> falsy (Some ''jane@x.com'') \<and> \<not> falsy (Some ''secret123'') \<and>
   \<not> falsy (Some ''player'') \<and> \<not> falsy (Some ''J. Doe'') \<and> \<not> falsy (Some ''other456'') \<and>
   \<not> falsy (Some ''coach'') \<and>
   findOne (\<lambda>u. email u = str (Some ''jane@x.com'')) [] = None \<and>
   bcrypt_hash example_bcrypt (str (Some ''secret123'')) 10 (salt example_env) \<noteq> [] \<and>
   status (fst (handle Clean example_bcrypt example_env
     (Register (Some ''Jane Doe'') (Some ''jane@x.com'') (Some ''secret123'') (Some ''player'')) [])) = 201 \<and>
   snd (handle Clean example_bcrypt example_env
     (Register (Some ''Jane Doe'') (Some ''jane@x.com'') (Some ''secret123'') (Some ''player'')) []) = [example_user] \<and>
   handle Clean example_bcrypt (example_env\<lparr>now := 2000\<rparr>)
     (Register (Some ''J. Doe'') (Some ''jane@x.com'') (Some ''other456'') (Some ''coach'')) [example_user] =
     (json 400 [(''message'', JString ''Email already exists'')], [example_user]) \<and>
   distinct (map email []) \<and>
   (\<forall>rs. distinct (map email (run Clean example_bcrypt rs [])))"
  using register_same_email_twice[of "Some ''Jane Doe''" "Some ''jane@x.com''" "Some ''secret123''"
      "Some ''player''" "Some ''J. Doe''" "Some ''other456''" "Some ''coach''" "[]"
      example_bcrypt example_env Clean "example_env\<lparr>now := 2000\<rparr>"]
  by (simp add: example_registered falsy_def str_def example_hash example_salt)

section \<open>Failed logins\<close>




section \<open>A notification that fails\<close>

text \<open>
  Against claim C3 as it is stated: on the auto-verifying server, \<open>/resend-verification\<close>
  for a stored account is answered 200 when the welcome email is sent and 500 when it is
  not.
\<close>

theorem resend_auto_notification_failure:
  "handle Auto example_bcrypt (example_env\<lparr>emailResult := \<lparr>success = True, error = None\<rparr>\<rparr>)
      (ResendVerification (Some ''jane@x.com'')) [example_user] =
     (json 200 [(''message'', JString ''Welcome email sent successfully! Your account is already active.'')],
      [example_user]) \<and>
   handle Auto example_bcrypt (example_env\<lparr>emailResult := \<lparr>success = False, error = Some ''ECONNREFUSED''\<rparr>\<rparr>)
      (ResendVerification (Some ''jane@x.com'')) [example_user] =
     (json 500 [(''message'', JString ''Failed to send welcome email. Please try again later.'')],
      [example_user])"
  by (simp add: resendVerification_auto_def falsy_def str_def example_user_def)

text \<open>
  Claim C3, amended. The answer and the effect of \<open>/register\<close> and of \<open>/verify-email\<close>
  do not depend on the result of the notification, on either server, and neither do those of
  \<open>/resend-verification\<close> of server-clean.js, which sends nothing. On the auto-verifying
  server \<open>/resend-verification\<close> changes no account, and a request that is answered 200
  when the email is sent is answered 500 ``Failed to send welcome email. Please try again
  later.'' when it is not.
\<close>

theorem notification_outcome:
  "handle sv bc (e\<lparr>emailResult := x\<rparr>) (Register f m p r) db =
     handle sv bc (e\<lparr>emailResult := y\<rparr>) (Register f m p r) db \<and>
   handle sv bc (e\<lparr>emailResult := x\<rparr>) (VerifyEmail t) db =
     handle sv bc (e\<lparr>emailResult := y\<rparr>) (VerifyEmail t) db \<and>
   handle Clean bc (e\<lparr>emailResult := x\<rparr>) (ResendVerification a) db =
     handle Clean bc (e\<lparr>emailResult := y\<rparr>) (ResendVerification a) db \<and>
   snd (handle Auto bc (e\<lparr>emailResult := x\<rparr>) (ResendVerification a) db) = db \<and>
   (status (fst (handle Auto bc (e\<lparr>emailResult := x\<rparr>) (ResendVerification a) db)) = 200 \<and> \<not> success y \<longrightarrow>
      fst (handle Auto bc (e\<lparr>emailResult := y\<rparr>) (ResendVerification a) db) =
        json 500 [(''message'', JString ''Failed to send welcome email. Please try again later.'')])"
proof -
  have reg: "handle sv bc (e\<lparr>emailResult := x\<rparr>) (Register f m p r) db =
     handle sv bc (e\<lparr>emailResult := y\<rparr>) (Register f m p r) db"
    by (cases sv) (simp_all add: register_clean_def register_auto_def Let_def split: option.splits sum.splits)
  have ver: "handle sv bc (e\<lparr>emailResult := x\<rparr>) (VerifyEmail t) db =
     handle sv bc (e\<lparr>emailResult := y\<rparr>) (VerifyEmail t) db"
    by (cases sv) (simp_all add: verifyEmail_auto_eq verifyEmail_clean_def)
  have res: "handle Clean bc (e\<lparr>emailResult := x\<rparr>) (ResendVerification a) db =
     handle Clean bc (e\<lparr>emailResult := y\<rparr>) (ResendVerification a) db"
    by (simp add: resendVerification_clean_def Let_def split: option.splits)
  have aut: "snd (handle Auto bc (e\<lparr>emailResult := x\<rparr>) (ResendVerification a) db) = db"
    by (simp add: resendVerification_auto_def split: option.splits)
  have fail: "status (fst (handle Auto bc (e\<lparr>emailResult := x\<rparr>) (ResendVerification a) db)) = 200 \<and> \<not> success y \<longrightarrow>
      fst (handle Auto bc (e\<lparr>emailResult := y\<rparr>) (ResendVerification a) db) =
        json 500 [(''message'', JString ''Failed to send welcome email. Please try again later.'')]"
    by (simp add: resendVerification_auto_def json_def split: option.splits if_splits)
  from reg ver res aut fail show ?thesis by blast
qed

theorem notification_outcome_witness:
  "status (fst (handle Auto example_bcrypt (example_env\<lparr>emailResult := \<lparr>success = True, error = None\<rparr>\<rparr>)
      (ResendVerification (Some ''jane@x.com'')) [example_user])) = 200 \<and>
   \<not> success \<lparr>success = False, error = Some ''ECONNREFUSED''\<rparr> \<and>
   fst (handle Auto example_bcrypt (example_env\<lparr>emailResult := \<lparr>success = False, error = Some ''ECONNREFUSED''\<rparr>\<rparr>)
      (ResendVerification (Some ''jane@x.com'')) [example_user]) =
     json 500 [(''message'', JString ''Failed to send welcome email. Please try again later.'')] \<and>
   handle Auto example_bcrypt (example_env\<lparr>emailResult := \<lparr>success = True, error = None\<rparr>\<rparr>)
      (Register (Some ''John Roe'') (Some ''john@x.com'') (Some ''hunter22'') (Some ''coach'')) [example_user] =
   handle Auto example_bcrypt (example_env\<lparr>emailResult := \<lparr>success = False, error = Some ''ECONNREFUSED''\<rparr>\<rparr>)
      (Register (Some ''John Roe'') (Some ''john@x.com'') (Some ''hunter22'') (Some ''coach'')) [example_user] \<and>
   status (fst (handle Auto example_bcrypt (example_env\<lparr>emailResult := \<lparr>success = False, error = Some ''ECONNREFUSED''\<rparr>\<rparr>)
      (Register (Some ''John Roe'') (Some ''john@x.com'') (Some ''hunter22'') (Some ''coach'')) [example_user])) = 201"
  using notification_outcome[where sv = Auto and bc = example_bcrypt and e = example_env
      and x = "\<lparr>success = True, error = None\<rparr>"
      and y = "\<lparr>success = False, error = Some ''ECONNREFUSED''\<rparr>"
      and f = "Some ''John Roe''" and m = "Some ''john@x.com''" and p = "Some ''hunter22''"
      and r = "Some ''coach''" and db = "[example_user]" and t = None and a = "Some ''jane@x.com''"]
  by (simp add: resendVerification_auto_def register_auto_def create_def falsy_def str_def example_user_def
      example_hash json_def example_env_def)

section \<open>Tokens that are unknown or expired\<close>

text \<open>
  Claim C5. A \<open>/verify-email\<close> request with a token that no account holds, or that is
  held only by accounts whose expiry is not after the clock, is answered 400 ``Invalid or
  expired verification token'', and the collection stays as it is.
\<close>

theorem verify_unknown_or_expired_token:
  assumes "\<not> falsy tok"
      and "\<forall>u\<in>set db. emailVerificationToken u = tok \<longrightarrow>
             (case emailVerificationExpires u of None \<Rightarrow> True | Some x \<Rightarrow> x \<le> now e)"
  shows "handle sv bc e (VerifyEmail tok) db =
           (json 400 [(''message'', JString ''Invalid or expired verification token'')], db)"
proof -
  have "\<forall>u\<in>set db. \<not> validToken (str tok) (now e) u"
    using assms falsy_Some[of tok] by (auto simp: validToken_def split: option.splits)
  then have "findOne (validToken (str tok) (now e)) db = None"
    by (simp add: findOne_None_iff)
  with assms(1) show ?thesis
    by (cases sv) (simp_all add: verifyEmail_auto_eq verifyEmail_clean_def)
qed

theorem verify_unknown_or_expired_token_witness:
  "\<not> falsy (Some example_token) \<and>
   emailVerificationToken example_user = Some example_token \<and>
   emailVerificationExpires example_user = Some 86401000 \<and>
   86401000 \<le> now (example_env\<lparr>now := 86401000\<rparr>) \<and>
   handle Clean example_bcrypt (example_env\<lparr>now := 86401000\<rparr>) (VerifyEmail (Some example_token)) [example_user] =
     (json 400 [(''message'', JString ''Invalid or expired verification token'')], [example_user])"
  using verify_unknown_or_expired_token[where tok = "Some example_token" and db = "[example_user]"
      and e = "example_env\<lparr>now := 86401000\<rparr>" and sv = Clean and bc = example_bcrypt]
  by (simp add: falsy_def example_user_def example_token_def)

section \<open>Lemmas about tokens\<close>

lemma holders_empty_iff: "holders t db = [] \<longleftrightarrow> (\<forall>u\<in>set db. emailVerificationToken u \<noteq> Some t)"
  by (simp add: holders_def filter_empty_conv)

lemma validToken_holds: "validToken t n u \<Longrightarrow> emailVerificationToken u = Some t"
  by (simp add: validToken_def)

lemma holders_consumed:
  assumes "findOne (validToken t n) db = Some i" and "length (holders t db) \<le> 1"
  shows "holders t (db[i := (db ! i)\<lparr>isEmailVerified := True, emailVerificationToken := None,
                                     emailVerificationExpires := None\<rparr>]) = []"
  using assms
proof (induction db arbitrary: i)
  case Nil
  then show ?case by simp
next
  case (Cons u us)
  show ?case
  proof (cases "validToken t n u")
    case True
    then have "emailVerificationToken u = Some t" by (rule validToken_holds)
    with Cons.prems(2) have "holders t us = []" by (simp add: holders_def)
    with True Cons.prems(1) show ?thesis by (simp add: holders_def)
  next
    case False
    with Cons.prems(1) obtain k where k: "findOne (validToken t n) us = Some k" "i = Suc k"
      by auto
    from findOne_Some[OF k(1)] have "us ! k \<in> set (holders t us)"
      by (auto simp: holders_def dest: validToken_holds)
    then have ne: "holders t us \<noteq> []" by auto
    with Cons.prems(2) have u: "emailVerificationToken u \<noteq> Some t"
      by (cases "holders t us") (auto simp: holders_def split: if_splits)
    with Cons.prems(2) have "length (holders t us) \<le> 1" by (simp add: holders_def)
    from Cons.IH[OF k(1) this] u k(2) show ?thesis by (simp add: holders_def)
  qed
qed

lemma holders_update_None:
  assumes "holders t db = []" and "emailVerificationToken u \<noteq> Some t"
  shows "holders t (db[i := u]) = []"
proof -
  have "set (db[i := u]) \<subseteq> insert u (set db)" by (rule set_update_subset_insert)
  with assms show ?thesis by (auto simp: holders_empty_iff)
qed

lemma holders_verifyEmail_clean:
  "holders t db = [] \<Longrightarrow> holders t (snd (verifyEmail_clean e tok db)) = []"
  by (simp add: verifyEmail_clean_def save_def holders_update_None split: option.splits)

lemma holders_resendVerification_clean:
  "holders t db = [] \<Longrightarrow> toString_hex (randomBytes e) \<noteq> t \<Longrightarrow>
   holders t (snd (resendVerification_clean e a db)) = []"
  by (simp add: resendVerification_clean_def save_def Let_def holders_update_None split: option.splits)

lemma holders_register_clean:
  "holders t db = [] \<Longrightarrow> toString_hex (randomBytes e) \<noteq> t \<Longrightarrow>
   holders t (snd (register_clean bc e f m p r db)) = []"
  by (simp add: register_clean_def create_def Let_def holders_def split: option.splits)

lemma holders_register_auto:
  "holders t db = [] \<Longrightarrow> toString_hex (randomBytes e) \<noteq> t \<Longrightarrow>
   holders t (snd (register_auto bc e f m p r db)) = []"
  by (simp add: register_auto_def create_def Let_def holders_def split: option.splits)

lemma holders_handle:
  assumes "holders t db = []" and "\<not> issues t (e, req)"
  shows "holders t (snd (handle sv bc e req db)) = []"
proof (cases sv)
  case Clean
  with assms show ?thesis
    by (cases req)
      (simp_all add: holders_register_clean holders_verifyEmail_clean
        holders_resendVerification_clean login_clean_def split: option.splits)
next
  case Auto
  with assms show ?thesis
    by (cases req)
      (simp_all add: holders_register_auto verifyEmail_auto_eq holders_verifyEmail_clean
        resendVerification_auto_def login_auto_def split: option.splits)
qed

lemma holders_run:
  "holders t db = [] \<Longrightarrow> list_all (\<lambda>er. \<not> issues t er) rs \<Longrightarrow> holders t (run sv bc rs db) = []"
proof (induction rs arbitrary: db)
  case Nil
  then show ?case by simp
next
  case (Cons er rs)
  from Cons.prems(2) have "\<not> issues t (fst er, snd er)" by simp
  from holders_handle[OF Cons.prems(1) this] Cons.prems(2) Cons.IH show ?case by simp
qed

lemma verifyEmail_unheld:
  assumes "\<not> falsy tok" and "holders (str tok) db = []"
  shows "handle sv bc e (VerifyEmail tok) db =
           (json 400 [(''message'', JString ''Invalid or expired verification token'')], db)"
proof -
  from assms(2) have "\<forall>u\<in>set db. \<not> validToken (str tok) (now e) u"
    by (auto simp: holders_empty_iff dest: validToken_holds)
  then have "findOne (validToken (str tok) (now e)) db = None"
    by (simp add: findOne_None_iff)
  with assms(1) show ?thesis
    by (cases sv) (simp_all add: verifyEmail_auto_eq verifyEmail_clean_def)
qed

lemma verifyEmail_200:
  assumes "status (fst (handle sv bc e (VerifyEmail tok) db)) = 200"
  shows "\<not> falsy tok \<and> (\<exists>i. findOne (validToken (str tok) (now e)) db = Some i \<and>
           snd (handle sv bc e (VerifyEmail tok) db) =
             db[i := (db ! i)\<lparr>isEmailVerified := True, emailVerificationToken := None,
                                emailVerificationExpires := None\<rparr>])"
  using assms
  by (cases sv)
    (auto simp: verifyEmail_auto_eq verifyEmail_clean_def json_def save_def
      split: if_splits option.splits)

lemma verifyEmail_not_200:
  assumes "status (fst (handle sv bc e (VerifyEmail tok) db)) \<noteq> 200"
  shows "snd (handle sv bc e (VerifyEmail tok) db) = db"
  using assms
  by (cases sv)
    (auto simp: verifyEmail_auto_eq verifyEmail_clean_def json_def save_def
      split: if_splits option.splits)

section \<open>A token is accepted before its expiry, and once\<close>

text \<open>
  Claim C4. When \<open>/verify-email\<close> accepts a token (status 200), an account holds that
  token with a stored expiry strictly after the clock. And when at most one account holds
  the token (the tokens are 32 random bytes; no handler compares them), the token is not
  accepted again: after the accepted request and after any further requests that do not
  draw the same bytes again for a new token, \<open>/verify-email\<close> with it is answered 400
  ``Invalid or expired verification token'' at every clock, and changes nothing.
\<close>

theorem token_before_expiry_and_once:
  assumes ok: "status (fst (handle sv bc e (VerifyEmail tok) db)) = 200"
  shows "(\<exists>i<length db. emailVerificationToken (db ! i) = tok \<and>
            (\<exists>x. emailVerificationExpires (db ! i) = Some x \<and> now e < x)) \<and>
         (length (holders (str tok) db) \<le> 1 \<longrightarrow>
            (\<forall>rs e'. list_all (\<lambda>er. \<not> issues (str tok) er) rs \<longrightarrow>
               handle sv bc e' (VerifyEmail tok) (run sv bc rs (snd (handle sv bc e (VerifyEmail tok) db))) =
                 (json 400 [(''message'', JString ''Invalid or expired verification token'')],
                  run sv bc rs (snd (handle sv bc e (VerifyEmail tok) db)))))"
proof -
  from verifyEmail_200[OF ok] obtain i where tok: "\<not> falsy tok"
    and i: "findOne (validToken (str tok) (now e)) db = Some i"
    and db': "snd (handle sv bc e (VerifyEmail tok) db) =
             db[i := (db ! i)\<lparr>isEmailVerified := True, emailVerificationToken := None,
                                emailVerificationExpires := None\<rparr>]"
    by blast
  from findOne_Some[OF i] falsy_Some[OF tok]
  have first: "\<exists>i<length db. emailVerificationToken (db ! i) = tok \<and>
            (\<exists>x. emailVerificationExpires (db ! i) = Some x \<and> now e < x)"
    by (auto simp: validToken_def split: option.splits)
  have second: "handle sv bc e' (VerifyEmail tok) (run sv bc rs (snd (handle sv bc e (VerifyEmail tok) db))) =
                 (json 400 [(''message'', JString ''Invalid or expired verification token'')],
                  run sv bc rs (snd (handle sv bc e (VerifyEmail tok) db)))"
    if one: "length (holders (str tok) db) \<le> 1" and rs: "list_all (\<lambda>er. \<not> issues (str tok) er) rs"
    for rs e'
  proof -
    from holders_consumed[OF i one] db'
    have "holders (str tok) (snd (handle sv bc e (VerifyEmail tok) db)) = []" by simp
    from holders_run[OF this rs]
    have "holders (str tok) (run sv bc rs (snd (handle sv bc e (VerifyEmail tok) db))) = []" .
    from verifyEmail_unheld[OF tok this] show ?thesis .
  qed
  from first second show ?thesis by blast
qed


lemma example_verified:
  "verifyEmail_clean (example_env\<lparr>now := 5000\<rparr>) (Some example_token) [example_user] =
     (json 200 [(''message'', JString ''Email verified successfully! You can now login to your account.''),
                (''isVerified'', JBool True)],
      [example_user\<lparr>isEmailVerified := True, emailVerificationToken := None,
                     emailVerificationExpires := None\<rparr>])"
  by (simp add: verifyEmail_clean_def falsy_def str_def validToken_def save_def example_user_def
      example_token_def)

lemma example_other_hex: "toString_hex (rev example_bytes) \<noteq> example_token"
  by (simp add: toString_hex_def example_bytes_def example_token_def hex_digit_def)

theorem token_before_expiry_and_once_witness:
  "status (fst (handle Clean example_bcrypt (example_env\<lparr>now := 5000\<rparr>)
     (VerifyEmail (Some example_token)) [example_user])) = 200 \<and>
   emailVerificationToken ([example_user] ! 0) = Some example_token \<and>
   emailVerificationExpires ([example_user] ! 0) = Some 86401000 \<and>
   now (example_env\<lparr>now := 5000\<rparr>) < 86401000 \<and>
   length (holders (str (Some example_token)) [example_user]) \<le> 1 \<and>
   list_all (\<lambda>er. \<not> issues (str (Some example_token)) er)
     [(example_env\<lparr>now := 6000, randomBytes := rev example_bytes, newId := 2\<rparr>,
       Register (Some ''John Roe'') (Some ''john@x.com'') (Some ''hunter22'') (Some ''coach'')),
      (example_env\<lparr>now := 6500\<rparr>, Login (Some ''jane@x.com'') (Some ''secret123''))] \<and>
   handle Clean example_bcrypt (example_env\<lparr>now := 7000\<rparr>) (VerifyEmail (Some example_token))
     (run Clean example_bcrypt
       [(example_env\<lparr>now := 6000, randomBytes := rev example_bytes, newId := 2\<rparr>,
         Register (Some ''John Roe'') (Some ''john@x.com'') (Some ''hunter22'') (Some ''coach'')),
        (example_env\<lparr>now := 6500\<rparr>, Login (Some ''jane@x.com'') (Some ''secret123''))]
       (snd (handle Clean example_bcrypt (example_env\<lparr>now := 5000\<rparr>)
          (VerifyEmail (Some example_token)) [example_user]))) =
     (json 400 [(''message'', JString ''Invalid or expired verification token'')],
      run Clean example_bcrypt
       [(example_env\<lparr>now := 6000, randomBytes := rev example_bytes, newId := 2\<rparr>,
         Register (Some ''John Roe'') (Some ''john@x.com'') (Some ''hunter22'') (Some ''coach'')),
        (example_env\<lparr>now := 6500\<rparr>, Login (Some ''jane@x.com'') (Some ''secret123''))]
       (snd (handle Clean example_bcrypt (example_env\<lparr>now := 5000\<rparr>)
          (VerifyEmail (Some example_token)) [example_user])))"
proof -
  have ok: "status (fst (handle Clean example_bcrypt (example_env\<lparr>now := 5000\<rparr>)
     (VerifyEmail (Some example_token)) [example_user])) = 200"
    by (simp add: example_verified json_def)
  have one: "length (holders (str (Some example_token)) [example_user]) \<le> 1"
    by (simp add: holders_def)
  have rs: "list_all (\<lambda>er. \<not> issues (str (Some example_token)) er)
     [(example_env\<lparr>now := 6000, randomBytes := rev example_bytes, newId := 2\<rparr>,
       Register (Some ''John Roe'') (Some ''john@x.com'') (Some ''hunter22'') (Some ''coach'')),
      (example_env\<lparr>now := 6500\<rparr>, Login (Some ''jane@x.com'') (Some ''secret123''))]"
    by (simp add: str_def example_other_hex)
  have stored: "emailVerificationToken ([example_user] ! 0) = Some example_token \<and>
      emailVerificationExpires ([example_user] ! 0) = Some 86401000 \<and>
      now (example_env\<lparr>now := 5000\<rparr>) < 86401000"
    by (simp add: example_user_def)
  from token_before_expiry_and_once[OF ok] one rs stored ok show ?thesis by blast
qed

section \<open>What becomes of a token\<close>

text \<open>
  Against claim C7 as it is stated: the account that \<open>/register\<close> stores for Jane Doe
  expires at 86401000. At the clock 90000000 the token is refused and login is refused, and
  the account still holds the token and the expiry.
\<close>

theorem expired_token_retained:
  "snd (handle Clean example_bcrypt example_env
     (Register (Some ''Jane Doe'') (Some ''jane@x.com'') (Some ''secret123'') (Some ''player'')) []) =
     [example_user] \<and>
   emailVerificationToken example_user = Some example_token \<and>
   emailVerificationExpires example_user = Some 86401000 \<and>
   (86401000 :: int) < now (example_env\<lparr>now := 90000000\<rparr>) \<and>
   handle Clean example_bcrypt (example_env\<lparr>now := 90000000\<rparr>) (VerifyEmail (Some example_token))
       [example_user] =
     (json 400 [(''message'', JString ''Invalid or expired verification token'')], [example_user]) \<and>
   handle Clean example_bcrypt (example_env\<lparr>now := 90000000\<rparr>)
       (Login (Some ''jane@x.com'') (Some ''secret123'')) [example_user] =
     (json 401 [(''message'', JString ''Please verify your email before logging in''),
                (''emailVerified'', JBool False)], [example_user])"
  by (simp add: example_registered verifyEmail_clean_def login_clean_def falsy_def str_def
      validToken_def example_user_def example_token_def)

text \<open>
  Claim C7, amended. When \<open>/verify-email\<close> accepts a token, the account it matched holds
  neither token nor expiry afterwards (both are \<open>null\<close>) and every other account is as it
  was. When it does not accept the token, the whole collection is as it was: an account
  whose expiry has passed keeps its token and its expiry.
\<close>

theorem consumed_token_cleared:
  "(status (fst (handle sv bc e (VerifyEmail tok) db)) = 200 \<longrightarrow>
      (\<exists>i<length db. validToken (str tok) (now e) (db ! i) \<and>
         snd (handle sv bc e (VerifyEmail tok) db) ! i =
           (db ! i)\<lparr>isEmailVerified := True, emailVerificationToken := None,
                     emailVerificationExpires := None\<rparr> \<and>
         emailVerificationToken (snd (handle sv bc e (VerifyEmail tok) db) ! i) = None \<and>
         emailVerificationExpires (snd (handle sv bc e (VerifyEmail tok) db) ! i) = None \<and>
         length (snd (handle sv bc e (VerifyEmail tok) db)) = length db \<and>
         (\<forall>j<length db. j \<noteq> i \<longrightarrow> snd (handle sv bc e (VerifyEmail tok) db) ! j = db ! j))) \<and>
   (status (fst (handle sv bc e (VerifyEmail tok) db)) \<noteq> 200 \<longrightarrow>
      snd (handle sv bc e (VerifyEmail tok) db) = db)"
proof (cases "status (fst (handle sv bc e (VerifyEmail tok) db)) = 200")
  case True
  from verifyEmail_200[OF True] obtain i
    where i: "findOne (validToken (str tok) (now e)) db = Some i"
      and db': "snd (handle sv bc e (VerifyEmail tok) db) =
             db[i := (db ! i)\<lparr>isEmailVerified := True, emailVerificationToken := None,
                                emailVerificationExpires := None\<rparr>]"
    by blast
  from findOne_Some[OF i] have "i < length db" "validToken (str tok) (now e) (db ! i)" by simp_all
  with True db' show ?thesis by auto
next
  case False
  with verifyEmail_not_200[OF False] show ?thesis by simp
qed

theorem consumed_token_cleared_witness:
  "status (fst (handle Clean example_bcrypt (example_env\<lparr>now := 5000\<rparr>)
     (VerifyEmail (Some example_token)) [example_user])) = 200 \<and>
   emailVerificationToken (snd (handle Clean example_bcrypt (example_env\<lparr>now := 5000\<rparr>)
     (VerifyEmail (Some example_token)) [example_user]) ! 0) = None \<and>
   emailVerificationExpires (snd (handle Clean example_bcrypt (example_env\<lparr>now := 5000\<rparr>)
     (VerifyEmail (Some example_token)) [example_user]) ! 0) = None \<and>
   status (fst (handle Clean example_bcrypt (example_env\<lparr>now := 90000000\<rparr>)
     (VerifyEmail (Some example_token)) [example_user])) \<noteq> 200 \<and>
   snd (handle Clean example_bcrypt (example_env\<lparr>now := 90000000\<rparr>)
     (VerifyEmail (Some example_token)) [example_user]) = [example_user]"
proof -
  have early: "status (fst (handle Clean example_bcrypt (example_env\<lparr>now := 5000\<rparr>)
     (VerifyEmail (Some example_token)) [example_user])) = 200"
    by (simp add: example_verified json_def)
  have late: "status (fst (handle Clean example_bcrypt (example_env\<lparr>now := 90000000\<rparr>)
     (VerifyEmail (Some example_token)) [example_user])) \<noteq> 200"
    by (simp add: verifyEmail_clean_def falsy_def str_def validToken_def example_user_def
        example_token_def json_def)
  from consumed_token_cleared[where sv = Clean and bc = example_bcrypt
      and e = "example_env\<lparr>now := 5000\<rparr>" and tok = "Some example_token" and db = "[example_user]"]
    early
  have cleared: "emailVerificationToken (snd (handle Clean example_bcrypt (example_env\<lparr>now := 5000\<rparr>)
       (VerifyEmail (Some example_token)) [example_user]) ! 0) = None \<and>
     emailVerificationExpires (snd (handle Clean example_bcrypt (example_env\<lparr>now := 5000\<rparr>)
       (VerifyEmail (Some example_token)) [example_user]) ! 0) = None"
    by auto
  from consumed_token_cleared[where sv = Clean and bc = example_bcrypt
      and e = "example_env\<lparr>now := 90000000\<rparr>" and tok = "Some example_token" and db = "[example_user]"]
    late
  have kept: "snd (handle Clean example_bcrypt (example_env\<lparr>now := 90000000\<rparr>)
     (VerifyEmail (Some example_token)) [example_user]) = [example_user]" by blast
  from early cleared late kept show ?thesis by blast
qed

section \<open>The auto-verifying server still consumes tokens\<close>

lemma findOne_append_new:
  assumes "holders t db = []" and "validToken t n u"
  shows "findOne (validToken t n) (db @ [u]) = Some (length db)"
proof -
  from assms(1) have "\<forall>v\<in>set db. \<not> validToken t n v"
    by (auto simp: holders_empty_iff dest: validToken_holds)
  then have "findOne (validToken t n) db = None" by (simp add: findOne_None_iff)
  from findOne_append_None[OF this, of u] assms(2) show ?thesis by simp
qed

text \<open>
  Claim C10. On the auto-verifying server a registration that succeeds stores an account
  that is verified already and still holds a fresh token and an expiry 24 hours ahead.
  A \<open>/verify-email\<close> request with that token before the expiry (no other account holding
  the same token) matches this account, is answered 200, and changes the collection: the
  token and the expiry of the account are cleared.
\<close>

theorem auto_verified_account_still_consumes:
  assumes fields: "\<not> falsy f" "\<not> falsy m" "\<not> falsy p" "\<not> falsy r"
      and fresh: "findOne (\<lambda>u. email u = str m) db = None"
      and hashed: "bcrypt_hash bc (str p) 10 (salt e) \<noteq> []"
      and bytes: "length (randomBytes e) = 32"
      and unheld: "holders (toString_hex (randomBytes e)) db = []"
      and in_time: "now e' < now e + day_ms"
  shows "\<exists>u. handle Auto bc e (Register f m p r) db =
           (json 201 [(''message'', JString ''Registration successful! Welcome to Palm Island Football Academy. You can now login to your account.''),
                      (''userId'', JId (newId e))],
            db @ [u]) \<and>
         isEmailVerified u \<and>
         emailVerificationToken u = Some (toString_hex (randomBytes e)) \<and>
         emailVerificationExpires u = Some (now e + day_ms) \<and>
         handle Auto bc e' (VerifyEmail (Some (toString_hex (randomBytes e)))) (db @ [u]) =
           (json 200 [(''message'', JString ''Email verified successfully! You can now login to your account.''),
                      (''isVerified'', JBool True)],
            db @ [u\<lparr>emailVerificationToken := None, emailVerificationExpires := None\<rparr>]) \<and>
         db @ [u\<lparr>emailVerificationToken := None, emailVerificationExpires := None\<rparr>] \<noteq> db @ [u]"
proof -
  let ?t = "toString_hex (randomBytes e)"
  let ?u = "\<lparr>uid = newId e, fullname = str f, email = str m, role = str r,
              password = bcrypt_hash bc (str p) 10 (salt e), isEmailVerified = True,
              emailVerificationToken = Some ?t,
              emailVerificationExpires = Some (now e + day_ms)\<rparr>"
  have reg: "handle Auto bc e (Register f m p r) db =
           (json 201 [(''message'', JString ''Registration successful! Welcome to Palm Island Football Academy. You can now login to your account.''),
                      (''userId'', JId (newId e))],
            db @ [?u])"
    using register_auto_fresh[OF fields fresh hashed] by simp
  have t: "?t \<noteq> []" using toString_hex_nonempty[OF bytes] .
  have "validToken ?t (now e') ?u" using in_time by (simp add: validToken_def)
  from findOne_append_new[OF unheld this]
  have found: "findOne (validToken ?t (now e')) (db @ [?u]) = Some (length db)" .
  have ver: "handle Auto bc e' (VerifyEmail (Some ?t)) (db @ [?u]) =
           (json 200 [(''message'', JString ''Email verified successfully! You can now login to your account.''),
                      (''isVerified'', JBool True)],
            db @ [?u\<lparr>emailVerificationToken := None, emailVerificationExpires := None\<rparr>])"
    using t found by (simp add: verifyEmail_auto_eq verifyEmail_clean_def falsy_def str_def save_def)
  from reg ver show ?thesis by (intro exI[of _ ?u]) simp
qed


lemma example_registered_auto:
  "register_auto example_bcrypt example_env (Some ''Jane Doe'') (Some ''jane@x.com'')
     (Some ''secret123'') (Some ''player'') [] =
   (json 201 [(''message'', JString ''Registration successful! Welcome to Palm Island Football Academy. You can now login to your account.''),
              (''userId'', JId 1)],
    [example_user\<lparr>isEmailVerified := True\<rparr>])"
  by (simp add: register_auto_def create_def falsy_def str_def example_bcrypt_def example_env_def
      example_user_def example_hex day_ms_def)

theorem auto_verified_account_still_consumes_witness:
  "\<not> falsy (Some ''Jane Doe'') \<and> \<not> falsy (Some ''jane@x.com'') \<and> \<not> falsy (Some ''secret123'') \<and>
   \<not> falsy (Some ''player'') \<and>
   findOne (\<lambda>u. email u = str (Some ''jane@x.com'')) [] = None \<and>
   bcrypt_hash example_bcrypt (str (Some ''secret123'')) 10 (salt example_env) \<noteq> [] \<and>
   length (randomBytes example_env) = 32 \<and>
   holders (toString_hex (randomBytes example_env)) [] = [] \<and>
   now (example_env\<lparr>now := 5000\<rparr>) < now example_env + day_ms \<and>
   (\<exists>u. handle Auto example_bcrypt example_env
          (Register (Some ''Jane Doe'') (Some ''jane@x.com'') (Some ''secret123'') (Some ''player'')) [] =
        (json 201 [(''message'', JString ''Registration successful! Welcome to Palm Island Football Academy. You can now login to your account.''),
                   (''userId'', JId (newId example_env))],
         [] @ [u]) \<and>
      isEmailVerified u \<and>
      emailVerificationToken u = Some (toString_hex (randomBytes example_env)) \<and>
      emailVerificationExpires u = Some (now example_env + day_ms) \<and>
      handle Auto example_bcrypt (example_env\<lparr>now := 5000\<rparr>)
          (VerifyEmail (Some (toString_hex (randomBytes example_env)))) ([] @ [u]) =
        (json 200 [(''message'', JString ''Email verified successfully! You can now login to your account.''),
                   (''isVerified'', JBool True)],
         [] @ [u\<lparr>emailVerificationToken := None, emailVerificationExpires := None\<rparr>]) \<and>
      [] @ [u\<lparr>emailVerificationToken := None, emailVerificationExpires := None\<rparr>] \<noteq> [] @ [u]) \<and>
   handle Auto example_bcrypt example_env
       (Register (Some ''Jane Doe'') (Some ''jane@x.com'') (Some ''secret123'') (Some ''player'')) [] =
     (json 201 [(''message'', JString ''Registration successful! Welcome to Palm Island Football Academy. You can now login to your account.''),
                (''userId'', JId 1)],
      [example_user\<lparr>isEmailVerified := True\<rparr>])"
proof -
  have hyps: "\<not> falsy (Some ''Jane Doe'')" "\<not> falsy (Some ''jane@x.com'')"
      "\<not> falsy (Some ''secret123'')" "\<not> falsy (Some ''player'')"
      "findOne (\<lambda>u. email u = str (Some ''jane@x.com'')) [] = None"
      "bcrypt_hash example_bcrypt (str (Some ''secret123'')) 10 (salt example_env) \<noteq> []"
      "length (randomBytes example_env) = 32"
      "holders (toString_hex (randomBytes example_env)) [] = []"
      "now (example_env\<lparr>now := 5000\<rparr>) < now example_env + day_ms"
    by (simp_all add: falsy_def str_def example_hash example_salt holders_def example_env_def
        example_bytes_def day_ms_def)
  from auto_verified_account_still_consumes[OF hyps] hyps show ?thesis
    by (simp add: example_registered_auto)
qed

section \<open>The fields of the responses\<close>














section \<open>The length of the full name\<close>

text \<open>
  Claim C8 says that a \<open>fullname\<close> of fewer than 2 or more than 50 characters is refused
  and no account is created. The handlers check only that the field is not empty, and the
  \<open>min\<close> and \<open>max\<close> of the schema check nothing on a string: a name of one character and a
  name of 53 characters are both registered with status 201.
\<close>

theorem register_fullname_length_unchecked:
  "handle Clean example_bcrypt example_env
       (Register (Some ''J'') (Some ''jane@x.com'') (Some ''secret123'') (Some ''player'')) [] =
     (json 201 [(''message'', JString ''Registration successful! Please check your email to verify your account.''),
                (''userId'', JId 1), (''verificationToken'', JString example_token)],
      [example_user\<lparr>fullname := ''J''\<rparr>]) \<and>
   length ''J'' = 1 \<and>
   handle Auto example_bcrypt example_env
       (Register (Some ''Jane Elizabeth Alexandra Montgomery-Featherstonehaugh'') (Some ''jane@x.com'')
          (Some ''secret123'') (Some ''player'')) [] =
     (json 201 [(''message'', JString ''Registration successful! Welcome to Palm Island Football Academy. You can now login to your account.''),
                (''userId'', JId 1)],
      [example_user\<lparr>fullname := ''Jane Elizabeth Alexandra Montgomery-Featherstonehaugh'',
                     isEmailVerified := True\<rparr>]) \<and>
   length ''Jane Elizabeth Alexandra Montgomery-Featherstonehaugh'' = 53"
  by (simp add: register_clean_def register_auto_def create_def falsy_def str_def example_bcrypt_def
      example_env_def example_user_def example_hex day_ms_def)

section \<open>The stored password\<close>

text \<open>
  The password that \<open>/register\<close> stores is the value of \<open>bcrypt.hash\<close> at cost 10, on
  both servers. What \<open>bcrypt.hash\<close> and \<open>bcrypt.compare\<close> compute is not part of the
  repository.
\<close>

lemma register_stores_hash:
  "status (fst (handle sv bc e (Register f m p r) db)) = 201 \<Longrightarrow>
   snd (handle sv bc e (Register f m p r) db) = db @ [u] \<Longrightarrow>
   password u = bcrypt_hash bc (str p) 10 (salt e)"
  by (cases sv)
    (auto simp: register_clean_def register_auto_def create_def Let_def json_def
      split: if_splits option.splits)

end
